theory Spec2Isabelle
  imports Complex_Main
begin

section \<open>The braces colour picker (src/BracesColorPicker.jsx)\<close>

text \<open>
  The component keeps three pieces of React state: \<open>selectedColor\<close> and \<open>colorMode\<close> in
  \<open>BracesColorPicker\<close> (lines 159-160) and \<open>meshColors\<close> in \<open>BracesModel\<close> (line 66).
  Colours, modes and mesh names are JavaScript strings; \<open>meshColors\<close> is a plain object
  used as a dictionary from mesh name to colour.
\<close>

subsection \<open>Part registry: \<open>BRACES_MESHES\<close> (lines 58-61)\<close>

text \<open>\<open>String(n)\<close> for a non-negative integer: its decimal digits.\<close>

fun String_num :: "nat \<Rightarrow> string" where
  "String_num n =
     (if n < 10 then [char_of (48 + n)]
      else String_num (n div 10) @ [char_of (48 + n mod 10)])"

declare String_num.simps [simp del]

text \<open>
  \<open>s.padStart(targetLength, padString)\<close>: a string that is long enough, or an empty
  pad, gives \<open>s\<close> back; otherwise the pad is repeated and cut to fill the gap.
\<close>

definition padStart :: "string \<Rightarrow> nat \<Rightarrow> string \<Rightarrow> string" where
  "padStart s targetLength padString =
     (if targetLength \<le> length s \<or> padString = [] then s
      else take (targetLength - length s)
             (concat (replicate (targetLength - length s) padString)) @ s)"

definition BRACES_MESHES :: "string list" where
  "BRACES_MESHES =
     map (\<lambda>i. ''BezierCircle005_Material005_'' @ padStart (String_num (i + 1)) 4 ''0'') [0..<16] @
     map (\<lambda>i. ''BezierCircle006_Material005_'' @ padStart (String_num (i + 1)) 4 ''0'') [0..<16]"

subsection \<open>Palette: \<open>COLORS\<close> (lines 7-55)\<close>

record color =
  name :: string
  hex :: string

definition COLORS :: "color list" where
  "COLORS =
    [\<lparr>name = ''Lime'', hex = ''#32CD32''\<rparr>,
     \<lparr>name = ''Shamrock'', hex = ''#009E60''\<rparr>,
     \<lparr>name = ''Green'', hex = ''#008000''\<rparr>,
     \<lparr>name = ''Jade'', hex = ''#00A86B''\<rparr>,
     \<lparr>name = ''Teal'', hex = ''#008080''\<rparr>,
     \<lparr>name = ''Light Blue'', hex = ''#87CEEB''\<rparr>,
     \<lparr>name = ''Blue'', hex = ''#0000FF''\<rparr>,
     \<lparr>name = ''Navy'', hex = ''#000080''\<rparr>,
     \<lparr>name = ''Purple'', hex = ''#800080''\<rparr>,
     \<lparr>name = ''Lilac'', hex = ''#C8A2C8''\<rparr>,
     \<lparr>name = ''Burgundy'', hex = ''#800020''\<rparr>,
     \<lparr>name = ''Red'', hex = ''#FF0000''\<rparr>,
     \<lparr>name = ''Fire Red'', hex = ''#DC143C''\<rparr>,
     \<lparr>name = ''Rose'', hex = ''#FF66CC''\<rparr>,
     \<lparr>name = ''Pink'', hex = ''#FFC0CB''\<rparr>,
     \<lparr>name = ''Bubblegum'', hex = ''#FF69B4''\<rparr>,
     \<lparr>name = ''Coral'', hex = ''#FF7F50''\<rparr>,
     \<lparr>name = ''Dark Orange'', hex = ''#FF8C00''\<rparr>,
     \<lparr>name = ''Orange'', hex = ''#FFA500''\<rparr>,
     \<lparr>name = ''Yellow'', hex = ''#FFFF00''\<rparr>,
     \<lparr>name = ''Black'', hex = ''#000000''\<rparr>,
     \<lparr>name = ''Grey'', hex = ''#808080''\<rparr>,
     \<lparr>name = ''Bronze'', hex = ''#CD7F32''\<rparr>,
     \<lparr>name = ''Gold Rush'', hex = ''#D4AF37''\<rparr>,
     \<lparr>name = ''Tooth Color'', hex = ''#F5F5DC''\<rparr>,
     \<lparr>name = ''Pearl'', hex = ''#F8F6F0''\<rparr>,
     \<lparr>name = ''White'', hex = ''#FFFFFF''\<rparr>,
     \<lparr>name = ''Silver'', hex = ''#C0C0C0''\<rparr>]"

subsection \<open>The colour assignment store\<close>

record store =
  selectedColor :: string
  colorMode :: string
  meshColors :: "string \<rightharpoonup> string"

text \<open>A JavaScript string is truthy iff it is not empty.\<close>

definition truthy :: "string \<Rightarrow> bool" where
  "truthy s = (s \<noteq> [])"

text \<open>\<open>handleMeshClick\<close> (lines 72-79): the functional update spreads the previous object.\<close>

definition handleMeshClick :: "store \<Rightarrow> string \<Rightarrow> store" where
  "handleMeshClick s meshName =
     (if colorMode s = ''single'' \<and> truthy (selectedColor s)
      then s\<lparr>meshColors := (meshColors s)(meshName \<mapsto> selectedColor s)\<rparr>
      else s)"

text \<open>
  The body of the effect of lines 82-90. \<open>newColors\<close> is the fresh object after the
  \<open>forEach\<close> over \<open>BRACES_MESHES\<close> (lines 84-87); it replaces \<open>meshColors\<close> (line 88).
\<close>

definition newColors :: "string \<Rightarrow> (string \<rightharpoonup> string)" where
  "newColors c = foldl (\<lambda>obj meshName. obj(meshName \<mapsto> c)) Map.empty BRACES_MESHES"

definition applyColors :: "store \<Rightarrow> store" where
  "applyColors s =
     (if colorMode s = ''all'' \<and> truthy (selectedColor s)
      then s\<lparr>meshColors := newColors (selectedColor s)\<rparr>
      else s)"

text \<open>
  The effect has the dependency list \<open>[selectedColor, colorMode]\<close> (line 90): React runs it
  after the first render and after every render in which one of the two differs from the
  previous render. A state setter called with the current value changes nothing.
  \<open>setSelectedColor\<close> is the palette's click handler (line 282), \<open>setColorMode\<close> the mode
  buttons' (lines 184, 193); each is modelled together with the effect run it triggers.
\<close>

definition setSelectedColor :: "string \<Rightarrow> store \<Rightarrow> store" where
  "setSelectedColor c s =
     (if c = selectedColor s then s else applyColors (s\<lparr>selectedColor := c\<rparr>))"

definition setColorMode :: "string \<Rightarrow> store \<Rightarrow> store" where
  "setColorMode m s =
     (if m = colorMode s then s else applyColors (s\<lparr>colorMode := m\<rparr>))"

text \<open>
  The initial values of the three \<open>useState\<close> calls (lines 66, 159, 160), and the state
  once \<open>BracesModel\<close> has mounted with given props: the effect's first run on the empty
  mapping. \<open>BracesModel\<close> mounts when the asset has loaded; palette and mode clicks before
  that change the two props only, so the props at the mount are left open.
\<close>

definition initial_store :: store where
  "initial_store = \<lparr>selectedColor = ''#0000FF'', colorMode = ''all'', meshColors = Map.empty\<rparr>"

definition mount :: "string \<Rightarrow> string \<Rightarrow> store" where
  "mount c m = applyColors \<lparr>selectedColor = c, colorMode = m, meshColors = Map.empty\<rparr>"

text \<open>The colour the material effect gives a registry mesh (line 127).\<close>

definition colorFor :: "store \<Rightarrow> string \<Rightarrow> string" where
  "colorFor s meshName =
     (case meshColors s meshName of
        None \<Rightarrow> ''#0000FF''
      | Some c \<Rightarrow> if truthy c then c else ''#0000FF'')"

subsection \<open>The pick resolver: the click listener (lines 93-113)\<close>

text \<open>
  The pointer event and the canvas rectangle carry JavaScript numbers (IEEE doubles). Their
  type is left open, with the arithmetic operations only as symbols: no law of a field or
  of an order is assumed of them. The literal \<open>2\<close> is written \<open>1 + 1\<close>, its value in
  double arithmetic, because numerals would ask for an associative addition.
\<close>

record 'n mouse_event =
  clientX :: 'n
  clientY :: 'n

record 'n dom_rect =
  rect_left :: 'n
  rect_top :: 'n
  rect_width :: 'n
  rect_height :: 'n

text \<open>Lines 98-99. In JavaScript the unary minus of line 99 binds before the product.\<close>

definition ndc_x :: "'n::{minus,inverse,times,plus,one} mouse_event \<Rightarrow> 'n dom_rect \<Rightarrow> 'n" where
  "ndc_x event rect = ((clientX event - rect_left rect) / rect_width rect) * (1 + 1) - 1"

definition ndc_y :: "'n::{minus,uminus,inverse,times,plus,one} mouse_event \<Rightarrow> 'n dom_rect \<Rightarrow> 'n" where
  "ndc_y event rect = (- ((clientY event - rect_top rect) / rect_height rect)) * (1 + 1) + 1"

text \<open>
  The same two lines in double arithmetic. A finite double is a real number, and IEEE 754
  gives each of \<open>-\<close>, \<open>/\<close>, \<open>*\<close> and \<open>+\<close> as the exact result rounded to a double; the
  rounding \<open>rnd\<close> is a parameter. The literals \<open>1\<close> and \<open>2\<close> are doubles, and the unary
  minus flips the sign bit and does not round. With the identity for \<open>rnd\<close> these are
  \<open>ndc_x\<close> and \<open>ndc_y\<close> over the reals.
\<close>

definition ndc_x_rounded :: "(real \<Rightarrow> real) \<Rightarrow> real mouse_event \<Rightarrow> real dom_rect \<Rightarrow> real" where
  "ndc_x_rounded rnd event rect =
     rnd (rnd (rnd (rnd (clientX event - rect_left rect) / rect_width rect) * 2) - 1)"


text \<open>
  One entry of the array three.js returns from \<open>intersectObjects\<close>: the distance from the
  ray's origin and the object hit, of which the listener reads the name only.
\<close>

record 'd intersection =
  distance :: 'd
  object_name :: string

text \<open>
  The two refs of lines 68-69 live across renders and are written by every click: the
  \<open>Vector2\<close> \<open>mouse\<close> and the \<open>Raycaster\<close>, whose state three.js owns.
\<close>

record ('n, 'rc) refs =
  mouse :: "'n \<times> 'n"
  raycaster :: 'rc

text \<open>
  Lines 97-105. three.js is not part of the repository: \<open>setFromCamera\<close> (the raycaster
  after it has been aimed) and \<open>intersectObjects\<close> are parameters. The listener passes
  \<open>true\<close> for the recursive flag.
\<close>

definition castRay ::
  "('rc \<Rightarrow> 'n \<times> 'n \<Rightarrow> 'cam \<Rightarrow> 'rc) \<Rightarrow> ('rc \<Rightarrow> 'obj \<Rightarrow> bool \<Rightarrow> 'd intersection list) \<Rightarrow>
   ('n::{minus,uminus,inverse,times,plus,one}, 'rc) refs \<Rightarrow> 'n mouse_event \<Rightarrow> 'n dom_rect \<Rightarrow>
   'cam \<Rightarrow> 'obj \<Rightarrow> 'd intersection list \<times> ('n, 'rc) refs" where
  "castRay setFromCamera intersectObjects r event rect camera children =
     (let m = (ndc_x event rect, ndc_y event rect);
          rc = setFromCamera (raycaster r) m camera
      in (intersectObjects rc children True, \<lparr>mouse = m, raycaster = rc\<rparr>))"

text \<open>Lines 107-109: the part a list of intersections resolves to, if any.\<close>

definition nearestPart :: "'d intersection list \<Rightarrow> string option" where
  "nearestPart intersects =
     (case intersects of
        [] \<Rightarrow> None
      | clicked # _ \<Rightarrow>
          if object_name clicked \<in> set BRACES_MESHES then Some (object_name clicked) else None)"

text \<open>Lines 97-109 together: from the pointer event to the resolved part.\<close>

definition resolve ::
  "('rc \<Rightarrow> 'n \<times> 'n \<Rightarrow> 'cam \<Rightarrow> 'rc) \<Rightarrow> ('rc \<Rightarrow> 'obj \<Rightarrow> bool \<Rightarrow> 'd intersection list) \<Rightarrow>
   ('n::{minus,uminus,inverse,times,plus,one}, 'rc) refs \<Rightarrow> 'n mouse_event \<Rightarrow> 'n dom_rect \<Rightarrow>
   'cam \<Rightarrow> 'obj \<Rightarrow> string option \<times> ('n, 'rc) refs" where
  "resolve setFromCamera intersectObjects r event rect camera children =
     (case castRay setFromCamera intersectObjects r event rect camera children of
        (intersects, r') \<Rightarrow> (nearestPart intersects, r'))"

text \<open>
  What the listener does to the store (lines 93-94 and 107-112), given the array
  \<open>intersects\<close> of line 105.
\<close>

definition handleCanvasClick :: "store \<Rightarrow> 'd intersection list \<Rightarrow> store" where
  "handleCanvasClick s intersects =
     (if colorMode s \<noteq> ''single'' then s
      else case intersects of
             [] \<Rightarrow> s
           | clicked # _ \<Rightarrow>
               if object_name clicked \<in> set BRACES_MESHES
               then handleMeshClick s (object_name clicked) else s)"

text \<open>The whole listener, on the store and the refs: outside single mode it returns at once.\<close>

definition clickListener ::
  "('rc \<Rightarrow> 'n \<times> 'n \<Rightarrow> 'cam \<Rightarrow> 'rc) \<Rightarrow> ('rc \<Rightarrow> 'obj \<Rightarrow> bool \<Rightarrow> 'd intersection list) \<Rightarrow>
   store \<times> ('n::{minus,uminus,inverse,times,plus,one}, 'rc) refs \<Rightarrow> 'n mouse_event \<Rightarrow>
   'n dom_rect \<Rightarrow> 'cam \<Rightarrow> 'obj \<Rightarrow> store \<times> ('n, 'rc) refs" where
  "clickListener setFromCamera intersectObjects sr event rect camera children =
     (case sr of (s, r) \<Rightarrow>
        if colorMode s \<noteq> ''single'' then (s, r)
        else case castRay setFromCamera intersectObjects r event rect camera children of
               (intersects, r') \<Rightarrow> (handleCanvasClick s intersects, r'))"

subsection \<open>User events\<close>

text \<open>
  The three things a user can do: click a palette card, click a mode button, click the
  canvas. A run handles a list of events in arrival order.
\<close>

datatype 'd event =
  SelectColor string
  | SetMode string
  | CanvasClick "'d intersection list"

fun fire :: "store \<Rightarrow> 'd event \<Rightarrow> store" where
  "fire s (SelectColor c) = setSelectedColor c s"
| "fire s (SetMode m) = setColorMode m s"
| "fire s (CanvasClick intersects) = handleCanvasClick s intersects"

definition run :: "store \<Rightarrow> 'd event list \<Rightarrow> store" where
  "run s es = foldl fire s es"

text \<open>
  The events the page can produce: the palette offers the colours of \<open>COLORS\<close>, the two
  buttons the modes \<open>all\<close> and \<open>single\<close>.
\<close>

fun ui_event :: "'d event \<Rightarrow> bool" where
  "ui_event (SelectColor c) = (c \<in> set (map hex COLORS))"
| "ui_event (SetMode m) = (m = ''all'' \<or> m = ''single'')"
| "ui_event (CanvasClick intersects) = True"

section \<open>Properties\<close>

subsection \<open>The registry and the palette\<close>

lemma BRACES_MESHES_eq: "BRACES_MESHES =
  [''BezierCircle005_Material005_0001'', ''BezierCircle005_Material005_0002'',
   ''BezierCircle005_Material005_0003'', ''BezierCircle005_Material005_0004'',
   ''BezierCircle005_Material005_0005'', ''BezierCircle005_Material005_0006'',
   ''BezierCircle005_Material005_0007'', ''BezierCircle005_Material005_0008'',
   ''BezierCircle005_Material005_0009'', ''BezierCircle005_Material005_0010'',
   ''BezierCircle005_Material005_0011'', ''BezierCircle005_Material005_0012'',
   ''BezierCircle005_Material005_0013'', ''BezierCircle005_Material005_0014'',
   ''BezierCircle005_Material005_0015'', ''BezierCircle005_Material005_0016'',
   ''BezierCircle006_Material005_0001'', ''BezierCircle006_Material005_0002'',
   ''BezierCircle006_Material005_0003'', ''BezierCircle006_Material005_0004'',
   ''BezierCircle006_Material005_0005'', ''BezierCircle006_Material005_0006'',
   ''BezierCircle006_Material005_0007'', ''BezierCircle006_Material005_0008'',
   ''BezierCircle006_Material005_0009'', ''BezierCircle006_Material005_0010'',
   ''BezierCircle006_Material005_0011'', ''BezierCircle006_Material005_0012'',
   ''BezierCircle006_Material005_0013'', ''BezierCircle006_Material005_0014'',
   ''BezierCircle006_Material005_0015'', ''BezierCircle006_Material005_0016'']"
  by code_simp

lemma length_BRACES_MESHES: "length BRACES_MESHES = 32"
  by (simp add: BRACES_MESHES_def)

lemma distinct_BRACES_MESHES: "distinct BRACES_MESHES"
  unfolding BRACES_MESHES_eq by simp

lemma card_BRACES_MESHES: "card (set BRACES_MESHES) = 32"
  by (simp add: distinct_card distinct_BRACES_MESHES length_BRACES_MESHES)

lemma first_mesh_known: "''BezierCircle005_Material005_0001'' \<in> set BRACES_MESHES"
  unfolding BRACES_MESHES_eq by simp

lemma last_mesh_known: "''BezierCircle006_Material005_0016'' \<in> set BRACES_MESHES"
  unfolding BRACES_MESHES_eq by simp

lemma tooth_unknown: "''Tooth'' \<notin> set BRACES_MESHES"
  unfolding BRACES_MESHES_eq by simp

lemma COLORS_truthy: "c \<in> set (map hex COLORS) \<Longrightarrow> truthy c"
  by (auto simp: COLORS_def truthy_def)

lemma length_COLORS: "length COLORS = 28"
  by (simp add: COLORS_def)

lemma foldl_upd_const:
  "foldl (\<lambda>obj meshName. obj(meshName \<mapsto> c)) m ks =
     (\<lambda>p. if p \<in> set ks then Some c else m p)"
  by (induction ks arbitrary: m) (auto simp: fun_eq_iff)

lemma newColors_eq: "newColors c = (\<lambda>p. if p \<in> set BRACES_MESHES then Some c else None)"
  by (simp add: newColors_def foldl_upd_const)

lemma newColors_apply: "newColors c p = (if p \<in> set BRACES_MESHES then Some c else None)"
  by (simp add: newColors_eq)

lemma dom_newColors: "dom (newColors c) = set BRACES_MESHES"
  by (auto simp: newColors_eq split: if_splits)

lemma meshColors_applyColors:
  "meshColors (applyColors s) =
     (if colorMode s = ''all'' \<and> selectedColor s \<noteq> [] then newColors (selectedColor s)
      else meshColors s)"
  by (simp add: applyColors_def truthy_def)

lemma selectedColor_applyColors [simp]: "selectedColor (applyColors s) = selectedColor s"
  by (simp add: applyColors_def)

lemma colorMode_applyColors [simp]: "colorMode (applyColors s) = colorMode s"
  by (simp add: applyColors_def)

subsection \<open>What each operation does to the three fields\<close>

lemma colorMode_setSelectedColor [simp]: "colorMode (setSelectedColor c s) = colorMode s"
  by (simp add: setSelectedColor_def)

lemma selectedColor_setSelectedColor [simp]: "selectedColor (setSelectedColor c s) = c"
  by (simp add: setSelectedColor_def)

lemma colorMode_setColorMode [simp]: "colorMode (setColorMode m s) = m"
  by (simp add: setColorMode_def)

lemma selectedColor_setColorMode [simp]: "selectedColor (setColorMode m s) = selectedColor s"
  by (simp add: setColorMode_def)

lemma meshColors_setSelectedColor:
  "meshColors (setSelectedColor c s) =
     (if c \<noteq> selectedColor s \<and> colorMode s = ''all'' \<and> c \<noteq> [] then newColors c
      else meshColors s)"
  by (simp add: setSelectedColor_def meshColors_applyColors)

lemma meshColors_setColorMode:
  "meshColors (setColorMode m s) =
     (if m = ''all'' \<and> colorMode s \<noteq> ''all'' \<and> selectedColor s \<noteq> []
      then newColors (selectedColor s) else meshColors s)"
  by (auto simp add: setColorMode_def meshColors_applyColors)

lemma handleCanvasClick_fields [simp]:
  "colorMode (handleCanvasClick s xs) = colorMode s"
  "selectedColor (handleCanvasClick s xs) = selectedColor s"
  by (simp_all add: handleCanvasClick_def handleMeshClick_def split: list.splits)

lemma meshColors_handleCanvasClick:
  "meshColors (handleCanvasClick s xs) =
     (case xs of
        [] \<Rightarrow> meshColors s
      | clicked # _ \<Rightarrow>
          if colorMode s = ''single'' \<and> selectedColor s \<noteq> [] \<and> object_name clicked \<in> set BRACES_MESHES
          then (meshColors s)(object_name clicked \<mapsto> selectedColor s)
          else meshColors s)"
  by (simp add: handleCanvasClick_def handleMeshClick_def truthy_def split: list.splits)

lemma mount_fields [simp]:
  "colorMode (mount c m) = m" "selectedColor (mount c m) = c"
  by (simp_all add: mount_def)

lemma meshColors_mount:
  "meshColors (mount c m) = (if m = ''all'' \<and> c \<noteq> [] then newColors c else Map.empty)"
  by (simp add: mount_def meshColors_applyColors)

lemma run_Nil [simp]: "run s [] = s"
  by (simp add: run_def)

lemma run_snoc [simp]: "run s (es @ [e]) = fire (run s es) e"
  by (simp add: run_def)

lemma run_Cons [simp]: "run s (e # es) = run (fire s e) es"
  by (simp add: run_def)

text \<open>
  Once mounted, a store in all mode with a truthy selection holds the broadcast mapping:
  no event breaks this.
\<close>

lemma fire_keeps_broadcast:
  assumes "colorMode s = ''all'' \<and> selectedColor s \<noteq> [] \<longrightarrow> meshColors s = newColors (selectedColor s)"
  shows "colorMode (fire s e) = ''all'' \<and> selectedColor (fire s e) \<noteq> [] \<longrightarrow>
           meshColors (fire s e) = newColors (selectedColor (fire s e))"
proof (cases e)
  case (SelectColor c)
  with assms show ?thesis by (auto simp: meshColors_setSelectedColor)
next
  case (SetMode m)
  with assms show ?thesis by (auto simp: meshColors_setColorMode)
next
  case (CanvasClick xs)
  with assms show ?thesis
    by (auto simp: meshColors_handleCanvasClick split: list.splits)
qed

lemma run_broadcast:
  "colorMode (run (mount c0 m0) es) = ''all'' \<and> selectedColor (run (mount c0 m0) es) \<noteq> [] \<longrightarrow>
     meshColors (run (mount c0 m0) es) = newColors (selectedColor (run (mount c0 m0) es))"
proof (induction es rule: rev_induct)
  case Nil
  show ?case by (simp add: meshColors_mount)
next
  case (snoc e es)
  from fire_keeps_broadcast [OF snoc.IH] show ?case by simp
qed

subsection \<open>Broadcast in all mode\<close>

text \<open>
  C1. Take any store the mounted component can be in: \<open>BracesModel\<close> mounted with any
  props, then any events. After the mode is set to \<open>all\<close> and a non-empty colour \<open>c\<close> is
  selected, \<open>meshColors\<close> is exactly the map sending each of the 32 names of
  \<open>BRACES_MESHES\<close> to \<open>c\<close>, and the colour of every registry mesh is \<open>c\<close>. Every palette
  colour is non-empty (\<open>COLORS_truthy\<close>).
\<close>

theorem all_then_color_broadcasts:
  assumes "c \<noteq> []"
  shows "meshColors (setSelectedColor c (setColorMode ''all'' (run (mount c0 m0) es))) =
           (\<lambda>p. if p \<in> set BRACES_MESHES then Some c else None) \<and>
         card (dom (meshColors (setSelectedColor c (setColorMode ''all'' (run (mount c0 m0) es))))) = 32 \<and>
         (\<forall>p\<in>set BRACES_MESHES.
            colorFor (setSelectedColor c (setColorMode ''all'' (run (mount c0 m0) es))) p = c)"
proof -
  let ?s = "run (mount c0 m0) es"
  let ?t = "setSelectedColor c (setColorMode ''all'' ?s)"
  have inv: "colorMode ?s = ''all'' \<and> selectedColor ?s \<noteq> [] \<longrightarrow>
      meshColors ?s = newColors (selectedColor ?s)"
    by (rule run_broadcast)
  have m: "meshColors ?t = newColors c"
  proof (cases "c = selectedColor ?s")
    case False
    then show ?thesis using assms by (simp add: meshColors_setSelectedColor)
  next
    case True
    show ?thesis
    proof (cases "colorMode ?s = ''all''")
      case True
      with \<open>c = selectedColor ?s\<close> assms inv show ?thesis
        by (simp add: meshColors_setSelectedColor meshColors_setColorMode)
    next
      case False
      with \<open>c = selectedColor ?s\<close> assms show ?thesis
        by (simp add: meshColors_setSelectedColor meshColors_setColorMode)
    qed
  qed
  have k: "card (dom (meshColors ?t)) = 32"
    by (simp only: m dom_newColors card_BRACES_MESHES)
  have "\<forall>p\<in>set BRACES_MESHES. colorFor ?t p = c"
    using assms by (simp add: colorFor_def m truthy_def newColors_apply)
  with m k show ?thesis by (simp add: newColors_eq)
qed

theorem all_then_color_broadcasts_witness:
  "colorFor
     (setSelectedColor ''#FF0000'' (setColorMode ''all''
        (run (mount ''#0000FF'' ''single'')
           [CanvasClick [\<lparr>distance = 1::nat, object_name = ''BezierCircle005_Material005_0001''\<rparr>]])))
     ''BezierCircle006_Material005_0016'' = ''#FF0000''"
proof -
  have "''#FF0000'' \<noteq> []" by simp
  from all_then_color_broadcasts [OF this] last_mesh_known show ?thesis by blast
qed

subsection \<open>Switching the mode\<close>

text \<open>
  C2 as stated does not hold. The effect of lines 82-90 lists \<open>colorMode\<close> among its
  dependencies, so a switch to \<open>all\<close> runs it at once. Mount with the defaults, switch to
  \<open>single\<close>, select red (nothing is repainted in single mode), switch back to \<open>all\<close>: the
  first mesh goes from blue to red with no new selection.
\<close>

theorem mode_switch_rewrites_counterexample:
  "meshColors
     (setColorMode ''all''
        (setSelectedColor ''#FF0000'' (setColorMode ''single'' (mount ''#0000FF'' ''all''))))
     ''BezierCircle005_Material005_0001'' \<noteq>
   meshColors
     (setSelectedColor ''#FF0000'' (setColorMode ''single'' (mount ''#0000FF'' ''all'')))
     ''BezierCircle005_Material005_0001''"
  by (simp add: meshColors_setColorMode meshColors_setSelectedColor meshColors_mount
      newColors_apply first_mesh_known)

text \<open>
  C2, amended. \<open>setColorMode m\<close> leaves \<open>meshColors\<close> as it is, except when \<open>m\<close> is \<open>all\<close>,
  the mode before was not \<open>all\<close> and the selected colour is non-empty: then the mapping
  becomes at once the map sending every name of \<open>BRACES_MESHES\<close> to the selected colour.
  In particular a switch to \<open>single\<close>, or to the mode already set, changes no entry.
\<close>

theorem setColorMode_mapping:
  "meshColors (setColorMode m s) =
     (if m = ''all'' \<and> colorMode s \<noteq> ''all'' \<and> selectedColor s \<noteq> []
      then (\<lambda>p. if p \<in> set BRACES_MESHES then Some (selectedColor s) else None)
      else meshColors s)"
  by (simp add: meshColors_setColorMode newColors_eq)

theorem setColorMode_mapping_witness:
  "meshColors (setColorMode ''single'' (mount ''#0000FF'' ''all'')) = meshColors (mount ''#0000FF'' ''all'') \<and>
   meshColors (setColorMode ''all'' (mount ''#FF0000'' ''single'')) ''BezierCircle005_Material005_0001'' = Some ''#FF0000'' \<and>
   meshColors (mount ''#FF0000'' ''single'') ''BezierCircle005_Material005_0001'' = None"
  using setColorMode_mapping [of "''single''" "mount ''#0000FF'' ''all''"]
    setColorMode_mapping [of "''all''" "mount ''#FF0000'' ''single''"] first_mesh_known
  by (simp add: meshColors_mount)

subsection \<open>Picks in single mode\<close>

text \<open>
  C4. From any store: switch to \<open>single\<close>, select \<open>c1\<close>, click so that the nearest
  intersection is the registry mesh \<open>p1\<close>, select \<open>c2\<close>, click on another registry mesh
  \<open>p2\<close>. Then \<open>p1\<close> has colour \<open>c1\<close> and \<open>p2\<close> has colour \<open>c2\<close>. The colours are non-empty,
  as every palette colour is.
\<close>

theorem picks_independent:
  assumes "c1 \<noteq> []" and "c2 \<noteq> []"
    and "object_name h1 \<in> set BRACES_MESHES" and "object_name h2 \<in> set BRACES_MESHES"
    and "object_name h1 \<noteq> object_name h2"
  shows "colorFor
           (handleCanvasClick (setSelectedColor c2
              (handleCanvasClick (setSelectedColor c1 (setColorMode ''single'' s)) (h1 # behind1)))
              (h2 # behind2))
           (object_name h1) = c1 \<and>
         colorFor
           (handleCanvasClick (setSelectedColor c2
              (handleCanvasClick (setSelectedColor c1 (setColorMode ''single'' s)) (h1 # behind1)))
              (h2 # behind2))
           (object_name h2) = c2"
  using assms
  by (simp add: colorFor_def truthy_def meshColors_handleCanvasClick meshColors_setSelectedColor)

theorem picks_independent_witness:
  "colorFor
     (handleCanvasClick (setSelectedColor ''#0000FF''
        (handleCanvasClick (setSelectedColor ''#FF0000'' (setColorMode ''single'' (mount ''#32CD32'' ''all'')))
           [\<lparr>distance = 1::nat, object_name = ''BezierCircle005_Material005_0001''\<rparr>]))
        [\<lparr>distance = 2::nat, object_name = ''BezierCircle006_Material005_0016''\<rparr>,
         \<lparr>distance = 3, object_name = ''BezierCircle005_Material005_0001''\<rparr>])
     ''BezierCircle005_Material005_0001'' = ''#FF0000''"
  using picks_independent [of "''#FF0000''" "''#0000FF''"
      "\<lparr>distance = 1::nat, object_name = ''BezierCircle005_Material005_0001''\<rparr>"
      "\<lparr>distance = 2::nat, object_name = ''BezierCircle006_Material005_0016''\<rparr>"
      "mount ''#32CD32'' ''all''" "[]"
      "[\<lparr>distance = 3, object_name = ''BezierCircle005_Material005_0001''\<rparr>]"]
    first_mesh_known last_mesh_known
  by simp

text \<open>
  C5. Outside single mode a pick changes nothing: the listener returns at line 94 before
  it touches the refs or the store, and \<open>handleMeshClick\<close> has the same guard at line 73.
  The whole store is returned as it was, so every colour is unchanged; the model has no
  failing branch because the source has none on this path.
\<close>

theorem pick_outside_single_ignored:
  assumes "colorMode s \<noteq> ''single''"
  shows "handleCanvasClick s intersects = s \<and> handleMeshClick s p = s \<and>
         clickListener setFromCamera intersectObjects (s, r) event rect camera children = (s, r) \<and>
         (\<forall>q. colorFor (handleCanvasClick s intersects) q = colorFor s q)"
  using assms by (simp add: handleCanvasClick_def handleMeshClick_def clickListener_def)

theorem pick_outside_single_ignored_witness:
  "handleCanvasClick (mount ''#FF0000'' ''all'')
     [\<lparr>distance = 1::nat, object_name = ''BezierCircle005_Material005_0001''\<rparr>] =
   mount ''#FF0000'' ''all''"
proof -
  have "colorMode (mount ''#FF0000'' ''all'') \<noteq> ''single''" by simp
  from pick_outside_single_ignored [OF this, THEN conjunct1]
  show ?thesis .
qed

text \<open>
  C6. In any mode, a click whose nearest intersection is an object with a name outside
  \<open>BRACES_MESHES\<close> leaves the store as it was. The membership test is the listener's
  (line 109); \<open>handleMeshClick\<close> is called from there only (line 110).
\<close>

theorem pick_unknown_ignored:
  assumes "object_name clicked \<notin> set BRACES_MESHES"
  shows "handleCanvasClick s (clicked # behind) = s"
  using assms by (simp add: handleCanvasClick_def)

theorem pick_unknown_ignored_witness:
  "handleCanvasClick (setColorMode ''single'' (mount ''#FF0000'' ''all''))
     [\<lparr>distance = 1::nat, object_name = ''Tooth''\<rparr>,
      \<lparr>distance = 2, object_name = ''BezierCircle005_Material005_0001''\<rparr>] =
   setColorMode ''single'' (mount ''#FF0000'' ''all'')"
  using pick_unknown_ignored [of "\<lparr>distance = 1::nat, object_name = ''Tooth''\<rparr>"] tooth_unknown
  by simp

text \<open>
  \<open>handleMeshClick\<close> itself has no membership test: in single mode it writes whatever name
  it is given. Only the call at line 110 reaches it, behind the test of line 109.
\<close>

lemma handleMeshClick_any_name:
  "colorMode s = ''single'' \<Longrightarrow> selectedColor s \<noteq> [] \<Longrightarrow>
   meshColors (handleMeshClick s meshName) meshName = Some (selectedColor s)"
  by (simp add: handleMeshClick_def truthy_def)

subsection \<open>The keys of the mapping\<close>

lemma fire_keeps_keys:
  assumes "dom (meshColors s) \<subseteq> set BRACES_MESHES"
  shows "dom (meshColors (fire s e)) \<subseteq> set BRACES_MESHES"
proof (cases e)
  case (SelectColor c)
  with assms show ?thesis by (simp add: meshColors_setSelectedColor dom_newColors)
next
  case (SetMode m)
  with assms show ?thesis by (simp add: meshColors_setColorMode dom_newColors)
next
  case (CanvasClick xs)
  with assms show ?thesis
    by (auto simp: meshColors_handleCanvasClick split: list.splits if_splits)
qed

lemma run_keeps_keys:
  "dom (meshColors s) \<subseteq> set BRACES_MESHES \<Longrightarrow> dom (meshColors (run s es)) \<subseteq> set BRACES_MESHES"
proof (induction es arbitrary: s)
  case Nil
  then show ?case by simp
next
  case (Cons e es)
  from Cons.IH [OF fire_keeps_keys [OF Cons.prems]] show ?case by simp
qed

lemma mount_keys: "dom (meshColors (mount c m)) \<subseteq> set BRACES_MESHES"
  by (simp add: meshColors_mount dom_newColors)

text \<open>
  C7. Whatever the events, with any colour and mode strings, the keys of \<open>meshColors\<close> stay
  within the 32 names of \<open>BRACES_MESHES\<close>: from the initial values with the empty mapping,
  and from the mounted component with any props.
\<close>

theorem keys_in_registry:
  "dom (meshColors (run initial_store es)) \<subseteq> set BRACES_MESHES \<and>
   dom (meshColors (run (mount c m) es)) \<subseteq> set BRACES_MESHES \<and>
   card (set BRACES_MESHES) = 32"
  by (simp add: run_keeps_keys mount_keys initial_store_def card_BRACES_MESHES)

subsection \<open>Startup\<close>

lemma blue_in_palette: "''#0000FF'' \<in> set (map hex COLORS)"
  by (simp add: COLORS_def)

lemma fire_keeps_palette:
  assumes "selectedColor s \<in> set (map hex COLORS)" and "ui_event e"
  shows "selectedColor (fire s e) \<in> set (map hex COLORS)"
  using assms by (cases e) simp_all

lemma run_keeps_palette:
  "selectedColor s \<in> set (map hex COLORS) \<Longrightarrow> list_all ui_event es \<Longrightarrow>
   selectedColor (run s es) \<in> set (map hex COLORS)"
proof (induction es arbitrary: s)
  case Nil
  then show ?case by (simp del: set_map)
next
  case (Cons e es)
  from Cons.prems(2) have e: "ui_event e" and es: "list_all ui_event es"
    by simp_all
  from Cons.prems(1) e have "selectedColor (fire s e) \<in> set (map hex COLORS)"
    by (rule fire_keeps_palette)
  from Cons.IH [OF this es] show ?case by (simp del: set_map)
qed

lemma colorFor_unassigned: "meshColors s p = None \<Longrightarrow> colorFor s p = ''#0000FF''"
  by (simp add: colorFor_def)

lemma colorFor_mount_blue: "colorFor (mount ''#0000FF'' ''all'') p = ''#0000FF''"
  by (simp add: colorFor_def meshColors_mount newColors_apply truthy_def)

text \<open>
  C10. The initial values are the empty mapping and the selected colour \<open>#0000FF\<close>, and an
  unassigned mesh is given \<open>#0000FF\<close>. So every mesh has colour \<open>#0000FF\<close> in the first
  render, and still has it once the effect of lines 82-90 has run on mount with the
  initial props (it writes \<open>#0000FF\<close> for every registry mesh). Whenever the component is
  mounted with a palette colour and then receives events of the page, the selected colour
  is non-empty, so in single mode the guard of line 73 lets every pick through.
\<close>

theorem startup_defaults:
  assumes "c0 \<in> set (map hex COLORS)" and "list_all ui_event es"
  shows "meshColors initial_store = Map.empty \<and>
         selectedColor initial_store = ''#0000FF'' \<and>
         (\<forall>s p. meshColors s p = None \<longrightarrow> colorFor s p = ''#0000FF'') \<and>
         (\<forall>p. colorFor initial_store p = ''#0000FF'') \<and>
         (\<forall>p. colorFor (mount (selectedColor initial_store) (colorMode initial_store)) p = ''#0000FF'') \<and>
         selectedColor (run (mount c0 m0) es) \<noteq> [] \<and>
         (colorMode (run (mount c0 m0) es) = ''single'' \<longrightarrow>
            handleMeshClick (run (mount c0 m0) es) p =
              (run (mount c0 m0) es)\<lparr>meshColors :=
                 (meshColors (run (mount c0 m0) es))(p \<mapsto> selectedColor (run (mount c0 m0) es))\<rparr>)"
proof -
  have "selectedColor (mount c0 m0) \<in> set (map hex COLORS)"
    using assms(1) by (simp del: set_map)
  from this assms(2) have "selectedColor (run (mount c0 m0) es) \<in> set (map hex COLORS)"
    by (rule run_keeps_palette)
  then have t: "truthy (selectedColor (run (mount c0 m0) es))"
    by (rule COLORS_truthy)
  have i: "\<forall>p. colorFor initial_store p = ''#0000FF''"
    by (simp add: colorFor_def initial_store_def)
  have m: "\<forall>p. colorFor (mount (selectedColor initial_store) (colorMode initial_store)) p = ''#0000FF''"
    by (simp add: initial_store_def colorFor_mount_blue)
  from t i m show ?thesis
    by (simp add: handleMeshClick_def colorFor_unassigned) (simp add: initial_store_def truthy_def)
qed

theorem startup_defaults_witness:
  "selectedColor
     (run (mount ''#0000FF'' ''all'')
        [SetMode ''single'', SelectColor ''#FF0000'',
         CanvasClick [\<lparr>distance = 1::nat, object_name = ''BezierCircle005_Material005_0001''\<rparr>]]) \<noteq> []"
proof -
  have "list_all ui_event
      [SetMode ''single'', SelectColor ''#FF0000'',
       CanvasClick [\<lparr>distance = 1::nat, object_name = ''BezierCircle005_Material005_0001''\<rparr>]]"
    by (simp add: COLORS_def)
  from startup_defaults [OF blue_in_palette this] show ?thesis by blast
qed

subsection \<open>Normalized device coordinates\<close>


lemma ndc_exact_arithmetic:
  fixes event :: "real mouse_event"
  shows "ndc_x event rect = 2 * (clientX event - rect_left rect) / rect_width rect - 1"
    and "ndc_y event rect = - (2 * (clientY event - rect_top rect) / rect_height rect) + 1"
  by (simp_all add: ndc_x_def ndc_y_def)





text \<open>
  A coarse rounding, to quarters, shows the difference rounding makes: the exact value
  at \<open>px = 10\<close>, \<open>w = 100\<close> is \<open>-4/5\<close>, the rounded one \<open>-1\<close>, still in range.
\<close>

lemma coarse_rounding_example:
  "ndc_x_rounded (\<lambda>x. real_of_int (round (4 * x)) / 4) \<lparr>clientX = 10, clientY = 20\<rparr>
      \<lparr>rect_left = 0, rect_top = 0, rect_width = 100, rect_height = 50\<rparr> = - 1"
  "ndc_x \<lparr>clientX = 10::real, clientY = 20\<rparr>
      \<lparr>rect_left = 0, rect_top = 0, rect_width = 100, rect_height = 50\<rparr> = - 4 / 5"
  by (simp_all add: ndc_x_rounded_def ndc_x_def round_def)

subsection \<open>The resolver\<close>

lemma fst_castRay:
  "fst (castRay setFromCamera intersectObjects r event rect camera children) =
     intersectObjects (setFromCamera (raycaster r) (ndc_x event rect, ndc_y event rect) camera)
       children True"
  by (simp add: castRay_def Let_def)

lemma fst_resolve:
  "fst (resolve setFromCamera intersectObjects r event rect camera children) =
     nearestPart (fst (castRay setFromCamera intersectObjects r event rect camera children))"
  by (simp add: resolve_def split: prod.splits)

lemma handleCanvasClick_nearestPart:
  "handleCanvasClick s intersects =
     (if colorMode s \<noteq> ''single'' then s
      else case nearestPart intersects of None \<Rightarrow> s | Some p \<Rightarrow> handleMeshClick s p)"
  by (simp add: handleCanvasClick_def nearestPart_def split: list.splits)

lemma fst_clickListener:
  "fst (clickListener setFromCamera intersectObjects (s, r) event rect camera children) =
     handleCanvasClick s (fst (castRay setFromCamera intersectObjects r event rect camera children))"
  by (simp add: clickListener_def handleCanvasClick_def split: prod.splits)

text \<open>
  C3. The resolver asks three.js for the intersections of all children, recursively
  (the flag \<open>true\<close>), and reads the first entry only. three.js returns the array sorted by
  distance, nearest first; this is the hypothesis. Then the resolver returns \<open>p\<close> exactly
  when the array has a first entry, no entry behind it is nearer, its object is named \<open>p\<close>
  and \<open>p\<close> is in \<open>BRACES_MESHES\<close>. When the first entry is not a registry mesh the result is
  nothing, whatever lies behind it.
\<close>

theorem resolve_nearest_only:
  fixes intersectObjects :: "'rc \<Rightarrow> 'obj \<Rightarrow> bool \<Rightarrow> ('d::ord) intersection list"
  assumes "sorted_wrt (\<lambda>a b. distance a \<le> distance b)
             (fst (castRay setFromCamera intersectObjects r event rect camera children))"
  shows "fst (castRay setFromCamera intersectObjects r event rect camera children) =
           intersectObjects (setFromCamera (raycaster r) (ndc_x event rect, ndc_y event rect) camera)
             children True \<and>
         (fst (resolve setFromCamera intersectObjects r event rect camera children) = Some p \<longleftrightarrow>
            (\<exists>clicked behind.
               fst (castRay setFromCamera intersectObjects r event rect camera children) = clicked # behind \<and>
               (\<forall>h\<in>set behind. distance clicked \<le> distance h) \<and>
               object_name clicked = p \<and> p \<in> set BRACES_MESHES)) \<and>
         (\<forall>clicked behind.
            fst (castRay setFromCamera intersectObjects r event rect camera children) = clicked # behind \<and>
            object_name clicked \<notin> set BRACES_MESHES \<longrightarrow>
            fst (resolve setFromCamera intersectObjects r event rect camera children) = None)"
proof -
  let ?xs = "fst (castRay setFromCamera intersectObjects r event rect camera children)"
  have a: "nearestPart ?xs = Some p \<longleftrightarrow>
      (\<exists>clicked behind. ?xs = clicked # behind \<and> (\<forall>h\<in>set behind. distance clicked \<le> distance h) \<and>
         object_name clicked = p \<and> p \<in> set BRACES_MESHES)"
    using assms by (cases ?xs) (auto simp: nearestPart_def)
  have b: "\<forall>clicked behind. ?xs = clicked # behind \<and> object_name clicked \<notin> set BRACES_MESHES \<longrightarrow>
      nearestPart ?xs = None"
    by (simp add: nearestPart_def)
  from a b show ?thesis
    by (simp only: fst_resolve fst_castRay [symmetric])
qed


theorem resolve_nearest_only_witness:
  "fst (resolve (\<lambda>rc coords cam. coords)
          (\<lambda>rc objs recursive.
             [\<lparr>distance = 1::nat, object_name = ''Tooth''\<rparr>,
              \<lparr>distance = 2, object_name = ''BezierCircle005_Material005_0001''\<rparr>])
          \<lparr>mouse = (0::real, 0), raycaster = (0, 0)\<rparr>
          \<lparr>clientX = 10, clientY = 20\<rparr>
          \<lparr>rect_left = 0, rect_top = 0, rect_width = 100, rect_height = 50\<rparr> () ()) = None"
proof -
  let ?sfc = "\<lambda>(rc::real \<times> real) (coords::real \<times> real) (cam::unit). coords"
  let ?io = "\<lambda>(rc::real \<times> real) (objs::unit) (recursive::bool).
             [\<lparr>distance = 1::nat, object_name = ''Tooth''\<rparr>,
              \<lparr>distance = 2, object_name = ''BezierCircle005_Material005_0001''\<rparr>]"
  let ?r = "\<lparr>mouse = (0::real, 0::real), raycaster = (0::real, 0::real)\<rparr>"
  let ?ev = "\<lparr>clientX = 10::real, clientY = 20\<rparr>"
  let ?rect = "\<lparr>rect_left = 0::real, rect_top = 0, rect_width = 100, rect_height = 50\<rparr>"
  have xs: "fst (castRay ?sfc ?io ?r ?ev ?rect () ()) =
      [\<lparr>distance = 1::nat, object_name = ''Tooth''\<rparr>,
       \<lparr>distance = 2, object_name = ''BezierCircle005_Material005_0001''\<rparr>]"
    by (simp add: fst_castRay)
  have "sorted_wrt (\<lambda>a b. distance a \<le> distance b) (fst (castRay ?sfc ?io ?r ?ev ?rect () ()))"
    by (simp only: xs) simp
  note occluded = resolve_nearest_only [OF this, THEN conjunct2, THEN conjunct2, rule_format]
  have "fst (castRay ?sfc ?io ?r ?ev ?rect () ()) =
      \<lparr>distance = 1::nat, object_name = ''Tooth''\<rparr> #
      [\<lparr>distance = 2, object_name = ''BezierCircle005_Material005_0001''\<rparr>] \<and>
      object_name \<lparr>distance = 1::nat, object_name = ''Tooth''\<rparr> \<notin> set BRACES_MESHES"
    using tooth_unknown by (simp only: xs) simp
  then show ?thesis by (rule occluded)
qed

text \<open>
  C9. The resolver writes the two refs before it reads them: the \<open>mouse\<close> vector is
  overwritten by lines 98-99 and the raycaster is aimed anew by \<open>setFromCamera\<close>. Given
  that three.js intersects an aimed raycaster according to the coordinates and the camera
  it was aimed with, whatever it held before (the hypothesis), the resolved part is the
  same from any two states of the refs: it depends on the event, the rectangle, the
  camera and the scene only. The store is no input of the resolver.
\<close>

theorem resolve_deterministic:
  assumes "\<And>rc rc' coords cam.
             intersectObjects (setFromCamera rc coords cam) = intersectObjects (setFromCamera rc' coords cam)"
  shows "fst (resolve setFromCamera intersectObjects r event rect camera children) =
         fst (resolve setFromCamera intersectObjects r' event rect camera children)"
  using assms [of "raycaster r" _ _ "raycaster r'"] by (simp add: fst_resolve fst_castRay)

theorem resolve_deterministic_witness:
  "fst (resolve (\<lambda>rc coords cam. coords)
          (\<lambda>rc objs recursive.
             if fst rc < 0 then [\<lparr>distance = 1::nat, object_name = ''BezierCircle005_Material005_0001''\<rparr>]
             else [])
          \<lparr>mouse = (0::real, 0), raycaster = (0, 0)\<rparr>
          \<lparr>clientX = 10, clientY = 20\<rparr>
          \<lparr>rect_left = 0, rect_top = 0, rect_width = 100, rect_height = 50\<rparr> () ()) =
   fst (resolve (\<lambda>rc coords cam. coords)
          (\<lambda>rc objs recursive.
             if fst rc < 0 then [\<lparr>distance = 1::nat, object_name = ''BezierCircle005_Material005_0001''\<rparr>]
             else [])
          \<lparr>mouse = (1::real, -1), raycaster = (1, -1)\<rparr>
          \<lparr>clientX = 10, clientY = 20\<rparr>
          \<lparr>rect_left = 0, rect_top = 0, rect_width = 100, rect_height = 50\<rparr> () ())"
  by (rule resolve_deterministic) simp

end
